theory Spec2Isabelle
  imports Main
begin

section \<open>The property converters of core/prop/converter\_list.go\<close>

text \<open>
  The file declares one list of converters. Each converter holds a decode function
  \<^verbatim>\<open>From func(n *movetree.Node, prop string, data []string) error\<close>, which mutates
  the node, and an encode function \<^verbatim>\<open>To func(n *movetree.Node) (string, error)\<close>.
  A decode function is modelled as a function from the node before the call to the node
  after the call together with the returned error (\<open>None\<close> for \<^verbatim>\<open>nil\<close>); a run-time
  panic is a separate outcome. An encode function returns the error or the fragment:
  whenever the source returns an error, the accompanying string is empty.
\<close>

subsection \<open>Values of the Go runtime and of package strconv\<close>

datatype panic =
  Index_out_of_range nat nat  \<comment> \<open>index out of range [i] with length l\<close>
| Nil_dereference

datatype 'a outcome = Returns 'a | Panics panic

text \<open>
  A \<^verbatim>\<open>float64\<close> is a NaN, an infinity with its sign, or a finite number
  \<open>Finite neg m e\<close>: the mantissa \<open>m\<close> times two to the power \<open>e\<close>, negated when
  \<open>neg\<close> holds. The sign of a zero is kept. The parser returns a finite number in the
  normal form of the format (a mantissa of 53 bits, or the least exponent); the
  operations read the value, so they are right on every representation of it.
\<close>

datatype float64 = Finite bool nat int | Infinity bool | NaN

datatype num_err = ErrSyntax | ErrRange

text \<open>
  The errors the converters return: strconv's \<^verbatim>\<open>*NumError\<close> (function, input,
  cause) and one constructor for each \<^verbatim>\<open>fmt.Errorf\<close> of the file, holding the
  arguments of its format string.
\<close>

datatype error =
  NumError string string num_err
| SZ_arity string nat
    \<comment> \<open>for prop \%s, data  must be exactly 1, was \%d\<close>
| SZ_not_integer string "string list" error
    \<comment> \<open>for prop \%s, error parsing data \%v as integer: \%v\<close>
| SZ_out_of_range string int
    \<comment> \<open>for prop \%s, size was \%d, but must be between 1 and 25\<close>
| SZ_invalid_size int
    \<comment> \<open>invalid board size: \%d, but only values between 1 and 25 are allowed\<close>
| Two_moves_on_node
    \<comment> \<open>found two moves on one node at move\<close>
| Move_arity
    \<comment> \<open>expected black move data to have exactly one value or zero values\<close>
| KM_bad_fraction float64
    \<comment> \<open>for prop KM, value was \%f, but the only decimal-value allowed for komi is .0 or .5\<close>
| KM_invalid_komi float64
    \<comment> \<open>invalid komi: the only decimal-value allowed for komi is .0 or .5. komi was \%f\<close>
| PL_arity nat
    \<comment> \<open>PL property requires exactly 1 Value, but had \%d\<close>
| PL_invalid_value string
    \<comment> \<open>Prop PL has invalid value of \%s\<close>
| PL_invalid_player string
    \<comment> \<open>prop PL can only have value W or B, but was \%s\<close>
| Unknown_color string
| Point_error string

text \<open>Indexing a slice panics out of range.\<close>

definition index :: "'a list \<Rightarrow> nat \<Rightarrow> 'a outcome" where
  "index xs i =
     (if i < length xs then Returns (xs ! i) else Panics (Index_out_of_range i (length xs)))"

subsubsection \<open>strconv.Atoi and strconv.Itoa\<close>

definition digit_of :: "char \<Rightarrow> nat option" where
  "digit_of c =
     (let k = (of_char c :: nat) in if 48 \<le> k \<and> k \<le> 57 then Some (k - 48) else None)"

definition digit_char :: "nat \<Rightarrow> char" where
  "digit_char d = char_of (48 + d)"

definition maxUint64 :: nat where
  "maxUint64 = 2 ^ 64 - 1"

text \<open>
  The digit loop of \<^verbatim>\<open>ParseUint\<close> in base 10 at 64 bits: a character that is no
  digit is a syntax error, a value beyond 64 bits a range error, whichever comes first.
\<close>

fun parse_uint :: "nat \<Rightarrow> string \<Rightarrow> num_err + nat" where
  "parse_uint n [] = Inr n"
| "parse_uint n (c # cs) =
     (case digit_of c of
        None \<Rightarrow> Inl ErrSyntax
      | Some d \<Rightarrow>
          if n \<ge> maxUint64 div 10 + 1 then Inl ErrRange
          else if n * 10 + d > maxUint64 then Inl ErrRange
          else parse_uint (n * 10 + d) cs)"

text \<open>
  \<^verbatim>\<open>Atoi(s)\<close> is \<^verbatim>\<open>ParseInt(s, 10, 0)\<close> with a 64-bit \<^verbatim>\<open>int\<close>: an optional sign,
  then at least one decimal digit, the value from \<open>- 2 ^ 63\<close> to \<open>2 ^ 63 - 1\<close>.
\<close>

definition parse_int :: "string \<Rightarrow> num_err + int" where
  "parse_int s =
     (if s = [] then Inl ErrSyntax
      else
        let neg = (hd s = CHR ''-'');
            ds = (if hd s = CHR ''+'' \<or> hd s = CHR ''-'' then tl s else s)
        in if ds = [] then Inl ErrSyntax
           else (case parse_uint 0 ds of
                   Inl ErrSyntax \<Rightarrow> Inl ErrSyntax
                 | Inl ErrRange \<Rightarrow> Inl ErrRange
                 | Inr un \<Rightarrow>
                     if \<not> neg \<and> un \<ge> 2 ^ 63 then Inl ErrRange
                     else if neg \<and> un > 2 ^ 63 then Inl ErrRange
                     else Inr (if neg then - int un else int un)))"

definition Atoi :: "string \<Rightarrow> error + int" where
  "Atoi s = (case parse_int s of Inl e \<Rightarrow> Inl (NumError ''Atoi'' s e) | Inr i \<Rightarrow> Inr i)"

fun nat_digits :: "nat \<Rightarrow> string" where
  "nat_digits n =
     (if n < 10 then [digit_char n] else nat_digits (n div 10) @ [digit_char (n mod 10)])"

declare nat_digits.simps [simp del]

definition Itoa :: "int \<Rightarrow> string" where
  "Itoa i = (if i < 0 then CHR ''-'' # nat_digits (nat (- i)) else nat_digits (nat i))"

subsubsection \<open>float64: comparison, math.Modf\<close>

text \<open>
  The comparison \<^verbatim>\<open>==\<close> of two floats: a NaN equals nothing, the two zeros are
  equal, and finite numbers are compared by value, whatever their representation.
\<close>

fun feq :: "float64 \<Rightarrow> float64 \<Rightarrow> bool" where
  "feq (Finite s m e) (Finite t k f) =
     (if m = 0 \<or> k = 0 then m = k
      else s = t \<and> m * 2 ^ nat (e - min e f) = k * 2 ^ nat (f - min e f))"
| "feq (Infinity s) (Infinity t) = (s = t)"
| "feq _ _ = False"

definition Float_0_5 :: float64 where
  "Float_0_5 = Finite False 1 (- 1)"

definition Float_0_0 :: float64 where
  "Float_0_0 = Finite False 0 0"

text \<open>
  \<^verbatim>\<open>math.Modf(f)\<close> returns the integer and the fractional part of \<open>f\<close>, both with
  the sign of \<open>f\<close>; \<^verbatim>\<open>Modf(\<plusminus>Inf) = \<plusminus>Inf, NaN\<close> and \<^verbatim>\<open>Modf(NaN) = NaN, NaN\<close>.
\<close>

fun Modf :: "float64 \<Rightarrow> float64 \<times> float64" where
  "Modf NaN = (NaN, NaN)"
| "Modf (Infinity s) = (Infinity s, NaN)"
| "Modf (Finite s m e) =
     (if e \<ge> 0 then (Finite s m e, Finite s 0 0)
      else (Finite s (m div 2 ^ nat (- e)) 0, Finite s (m mod 2 ^ nat (- e)) e))"

subsubsection \<open>Rounding to the nearest float64\<close>

definition round_half_even :: "nat \<Rightarrow> nat \<Rightarrow> nat" where
  "round_half_even a b =
     (let q = a div b; r = a mod b
      in if 2 * r > b \<or> (2 * r = b \<and> odd q) then q + 1 else q)"

fun bitlen :: "nat \<Rightarrow> nat" where
  "bitlen n = (if n = 0 then 0 else Suc (bitlen (n div 2)))"

declare bitlen.simps [simp del]

definition ge_pow2 :: "nat \<Rightarrow> nat \<Rightarrow> int \<Rightarrow> bool" where
  "ge_pow2 num den k = (if k \<ge> 0 then num \<ge> den * 2 ^ nat k else num * 2 ^ nat (- k) \<ge> den)"

text \<open>
  The float64 nearest to \<open>num / den\<close>, ties to the even mantissa (IEEE 754 unbiased
  rounding), in normalised form: the mantissa has 53 bits, or the exponent is the
  least one, \<open>-1074\<close>. \<open>None\<close> when the rounded value is beyond the largest float64.
\<close>

definition round_float64 :: "bool \<Rightarrow> nat \<Rightarrow> nat \<Rightarrow> float64 option" where
  "round_float64 neg num den =
     (if num = 0 then Some (Finite neg 0 (- 1074))
      else
        let k0 = int (bitlen num) - int (bitlen den);
            lg = (if ge_pow2 num den k0 then k0 else k0 - 1);
            e = max (lg - 52) (- 1074);
            a = (if e \<ge> 0 then num else num * 2 ^ nat (- e));
            b = (if e \<ge> 0 then den * 2 ^ nat e else den);
            m = round_half_even a b;
            e' = (if m = 2 ^ 53 then e + 1 else e);
            m' = (if m = 2 ^ 53 then 2 ^ 52 else m)
        in if e' > 971 then None else Some (Finite neg m' e'))"

subsubsection \<open>strconv.ParseFloat at 64 bits\<close>

text \<open>Comparison with a lower-case letter of a pattern, ignoring the case.\<close>

definition eq_fold :: "char \<Rightarrow> char \<Rightarrow> bool" where
  "eq_fold c p =
     (c = p \<or> (65 \<le> (of_char c :: nat) \<and> (of_char c :: nat) \<le> 90
               \<and> (of_char c :: nat) + 32 = of_char p))"

fun commonPrefixLenIgnoreCase :: "string \<Rightarrow> string \<Rightarrow> nat" where
  "commonPrefixLenIgnoreCase (c # s) (p # ps) =
     (if eq_fold c p then Suc (commonPrefixLenIgnoreCase s ps) else 0)"
| "commonPrefixLenIgnoreCase _ _ = 0"

definition inf_len :: "string \<Rightarrow> nat" where
  "inf_len s =
     (let n = commonPrefixLenIgnoreCase s ''infinity'' in if 3 < n \<and> n < 8 then 3 else n)"

text \<open>
  \<^verbatim>\<open>special\<close>: the strings "NaN", and "Inf" and "Infinity" with an optional sign,
  in any case. The result is the value and the number of characters read.
\<close>

definition special :: "string \<Rightarrow> (float64 \<times> nat) option" where
  "special s =
     (case s of
        [] \<Rightarrow> None
      | c # cs \<Rightarrow>
          if c = CHR ''+'' \<or> c = CHR ''-'' then
            (if inf_len cs = 3 \<or> inf_len cs = 8
             then Some (Infinity (c = CHR ''-''), 1 + inf_len cs) else None)
          else if c = CHR ''i'' \<or> c = CHR ''I'' then
            (if inf_len s = 3 \<or> inf_len s = 8
             then Some (Infinity False, inf_len s) else None)
          else if c = CHR ''n'' \<or> c = CHR ''N'' then
            (if commonPrefixLenIgnoreCase s ''nan'' = 3 then Some (NaN, 3) else None)
          else None)"

definition hex_letter_of :: "char \<Rightarrow> nat option" where
  "hex_letter_of c =
     (let k = (of_char c :: nat) in
      if 97 \<le> k \<and> k \<le> 102 then Some (k - 87)
      else if 65 \<le> k \<and> k \<le> 70 then Some (k - 55)
      else None)"

text \<open>
  The state of the mantissa loop of \<^verbatim>\<open>readFloat\<close>. The source counts digits and the
  position of the point, and drops the digits beyond the 19th (the parser reads them
  again when they matter); the model keeps the exact number: every digit read, and how
  many of them follow the point.
\<close>

record mant =
  sawdot :: bool
  sawdigits :: bool
  underscores :: bool
  mantissa :: nat
  fracdigits :: nat

definition push_digit :: "nat \<Rightarrow> nat \<Rightarrow> mant \<Rightarrow> mant" where
  "push_digit base d st =
     st\<lparr>sawdigits := True, mantissa := mantissa st * base + d,
        fracdigits := (if sawdot st then fracdigits st + 1 else fracdigits st)\<rparr>"

fun read_mantissa :: "nat \<Rightarrow> mant \<Rightarrow> string \<Rightarrow> mant \<times> string" where
  "read_mantissa base st [] = (st, [])"
| "read_mantissa base st (c # cs) =
     (if c = CHR ''_'' then read_mantissa base (st\<lparr>underscores := True\<rparr>) cs
      else if c = CHR ''.'' then
        (if sawdot st then (st, c # cs) else read_mantissa base (st\<lparr>sawdot := True\<rparr>) cs)
      else
        (case digit_of c of
           Some d \<Rightarrow> read_mantissa base (push_digit base d st) cs
         | None \<Rightarrow>
             (case (if base = 16 then hex_letter_of c else None) of
                Some d \<Rightarrow> read_mantissa base (push_digit base d st) cs
              | None \<Rightarrow> (st, c # cs))))"

text \<open>The digits of the exponent; the exponent stops growing at 10000.\<close>

fun read_exponent :: "nat \<Rightarrow> bool \<Rightarrow> string \<Rightarrow> nat \<times> bool \<times> string" where
  "read_exponent e us [] = (e, us, [])"
| "read_exponent e us (c # cs) =
     (if c = CHR ''_'' then read_exponent e True cs
      else
        (case digit_of c of
           Some d \<Rightarrow> read_exponent (if e < 10000 then e * 10 + d else e) us cs
         | None \<Rightarrow> (e, us, c # cs)))"

fun underscore_scan :: "bool \<Rightarrow> char \<Rightarrow> string \<Rightarrow> bool" where
  "underscore_scan hex saw [] = (saw \<noteq> CHR ''_'')"
| "underscore_scan hex saw (c # cs) =
     (if digit_of c \<noteq> None \<or> (hex \<and> hex_letter_of c \<noteq> None)
      then underscore_scan hex (CHR ''0'') cs
      else if c = CHR ''_'' then
        (if saw \<noteq> CHR ''0'' then False else underscore_scan hex (CHR ''_'') cs)
      else if saw = CHR ''_'' then False
      else underscore_scan hex (CHR ''!'') cs)"

definition strip_sign :: "string \<Rightarrow> string" where
  "strip_sign s = (case s of [] \<Rightarrow> [] | c # cs \<Rightarrow> if c = CHR ''+'' \<or> c = CHR ''-'' then cs else s)"

text \<open>
  \<^verbatim>\<open>underscoreOK\<close>: an underscore must separate two digits, or follow a base prefix
  and precede a digit.
\<close>

definition underscoreOK :: "string \<Rightarrow> bool" where
  "underscoreOK s0 =
     (case strip_sign s0 of
        c # d # cs \<Rightarrow>
          if c = CHR ''0'' \<and> d \<in> set ''bBoOxX''
          then underscore_scan (d = CHR ''x'' \<or> d = CHR ''X'') (CHR ''0'') cs
          else underscore_scan False (CHR ''^'') (c # d # cs)
      | s \<Rightarrow> underscore_scan False (CHR ''^'') s)"

text \<open>
  \<^verbatim>\<open>readFloat\<close>: an optional sign, an optional prefix \<^verbatim>\<open>0x\<close>, the mantissa, and an
  exponent, which a hexadecimal mantissa must have. The result is the sign, whether the
  number is hexadecimal, the mantissa \<open>m\<close> and the exponent \<open>x\<close> of the value
  \<open>m * 10\<^sup>x\<close> (hexadecimal: \<open>m * 2\<^sup>x\<close>), and the characters not read.
\<close>

definition finishFloat ::
  "string \<Rightarrow> bool \<Rightarrow> bool \<Rightarrow> mant \<Rightarrow> int \<Rightarrow> bool \<Rightarrow> string
     \<Rightarrow> (bool \<times> bool \<times> nat \<times> int \<times> string) option" where
  "finishFloat s neg hex st e us rest =
     (if (underscores st \<or> us) \<and> \<not> underscoreOK (take (length s - length rest) s) then None
      else Some (neg, hex, mantissa st,
                 e - (if hex then 4 * int (fracdigits st) else int (fracdigits st)), rest))"

definition readFloat :: "string \<Rightarrow> (bool \<times> bool \<times> nat \<times> int \<times> string) option" where
  "readFloat s =
     (if s = [] then None
      else
        let neg = (hd s = CHR ''-'');
            s1 = strip_sign s;
            hex = (case s1 of c # d # _ # _ \<Rightarrow> c = CHR ''0'' \<and> (d = CHR ''x'' \<or> d = CHR ''X'')
                   | _ \<Rightarrow> False);
            (st, s2) = read_mantissa (if hex then 16 else 10)
                         \<lparr>sawdot = False, sawdigits = False, underscores = False,
                          mantissa = 0, fracdigits = 0\<rparr>
                         (if hex then drop 2 s1 else s1)
        in if \<not> sawdigits st then None
           else
             (case s2 of
                [] \<Rightarrow> if hex then None else finishFloat s neg hex st 0 False []
              | c # s3 \<Rightarrow>
                  if (if hex then c = CHR ''p'' \<or> c = CHR ''P'' else c = CHR ''e'' \<or> c = CHR ''E'')
                  then
                    (case s3 of
                       [] \<Rightarrow> None
                     | sg # _ \<Rightarrow>
                         (let s4 = strip_sign s3 in
                          case s4 of
                            [] \<Rightarrow> None
                          | d # _ \<Rightarrow>
                              if digit_of d = None then None
                              else
                                (let (e, us, s5) = read_exponent 0 False s4
                                 in finishFloat s neg hex st
                                      (if sg = CHR ''-'' then - int e else int e) us s5)))
                  else if hex then None
                  else finishFloat s neg hex st 0 False s2))"

text \<open>
  \<^verbatim>\<open>ParseFloat(s, 64)\<close>: a syntax error unless the whole string is a number; the
  nearest float64 otherwise, and a range error when that is beyond the largest one.
  The float that the source returns beside an error is left out: the decoder of KM
  does not read it.
\<close>

definition ParseFloat :: "string \<Rightarrow> error + float64" where
  "ParseFloat s =
     (case special s of
        Some (v, n) \<Rightarrow>
          if n = length s then Inr v else Inl (NumError ''ParseFloat'' s ErrSyntax)
      | None \<Rightarrow>
          (case readFloat s of
             None \<Rightarrow> Inl (NumError ''ParseFloat'' s ErrSyntax)
           | Some (neg, hex, m, x, rest) \<Rightarrow>
               if rest \<noteq> [] then Inl (NumError ''ParseFloat'' s ErrSyntax)
               else
                 (let b = (if hex then 2 else 10) in
                  case round_float64 neg (if x \<ge> 0 then m * b ^ nat x else m)
                                         (if x \<ge> 0 then 1 else b ^ nat (- x)) of
                    None \<Rightarrow> Inl (NumError ''ParseFloat'' s ErrRange)
                  | Some v \<Rightarrow> Inr v)))"

subsubsection \<open>strconv.FormatFloat with format 'f'\<close>

fun fixed_digits :: "nat \<Rightarrow> nat \<Rightarrow> string" where
  "fixed_digits 0 v = []"
| "fixed_digits (Suc k) v = fixed_digits k (v div 10) @ [digit_char (v mod 10)]"

text \<open>
  \<^verbatim>\<open>FormatFloat(x, 'f', prec, 64)\<close>: the decimal expansion of \<open>x\<close> rounded to
  \<open>prec\<close> digits after the point, ties to even.
\<close>

definition FormatFloat_f :: "float64 \<Rightarrow> nat \<Rightarrow> string" where
  "FormatFloat_f x prec =
     (case x of
        NaN \<Rightarrow> ''NaN''
      | Infinity s \<Rightarrow> (if s then ''-Inf'' else ''+Inf'')
      | Finite s m e \<Rightarrow>
          (let q = (if e \<ge> 0 then m * 2 ^ nat e * 10 ^ prec
                    else round_half_even (m * 10 ^ prec) (2 ^ nat (- e)))
           in (if s then ''-'' else []) @ nat_digits (q div 10 ^ prec)
              @ (if prec > 0 then ''.'' @ fixed_digits prec (q mod 10 ^ prec) else [])))"

subsection \<open>Colors, moves and nodes\<close>

text \<open>
  Modelled from the spec: the constants of package color, which is not part of the
  source given. A color is a short string, the empty string for "unspecified"
  (spec, section 9); the encoder of PL compares the stored color with the literals
  \<^verbatim>\<open>"W"\<close> and \<^verbatim>\<open>"B"\<close> and prints it as the canonical single letter.
\<close>

type_synonym Color = string

definition Black :: Color where
  "Black = ''B''"

definition White :: Color where
  "White = ''W''"

text \<open>
  Modelled from the spec: \<^verbatim>\<open>color.FromSGFProp\<close>, which resolves the color implied
  by a property code: the black and white placement codes and the black and white move
  codes (spec, sections 4.3, 4.4 and 6); any other code is an error.
\<close>

definition FromSGFProp :: "string \<Rightarrow> error + Color" where
  "FromSGFProp prop =
     (if prop = ''AB'' \<or> prop = ''B'' then Inr Black
      else if prop = ''AW'' \<or> prop = ''W'' then Inr White
      else Inl (Unknown_color prop))"

text \<open>
  Modelled from the spec: the type \<^verbatim>\<open>move.Move\<close>, a color and a point or a pass
  (spec, section 3). The type of points and its textual encoding belong to another
  package; the point type is a parameter \<open>'p\<close>, and the two conversions
  \<^verbatim>\<open>point.NewFromSGF\<close> and \<^verbatim>\<open>(*Point).ToSGF\<close> are parameters of the converters
  that call them. The receiver of \<^verbatim>\<open>ToSGF\<close> is the pointer that \<^verbatim>\<open>mv.Point()\<close>
  returns, \<open>None\<close> for a pass.
\<close>

record 'p Move =
  Color :: Color
  Point :: "'p option"

definition IsPass :: "'p Move \<Rightarrow> bool" where
  "IsPass mv = (Point mv = None)"

text \<open>
  Modelled from the spec: \<^verbatim>\<open>move.FromSGFPoint\<close>, the move constructor that "itself
  encodes pass-vs-point": the empty string is a pass, any other value is a point
  coordinate and fails when its syntax is malformed (spec, section 4.4).
\<close>

definition FromSGFPoint ::
  "(string \<Rightarrow> error + 'p) \<Rightarrow> Color \<Rightarrow> string \<Rightarrow> error + 'p Move" where
  "FromSGFPoint NewFromSGF col sgfPt =
     (if sgfPt = [] then Inr \<lparr>Color = col, Point = None\<rparr>
      else (case NewFromSGF sgfPt of
              Inl err \<Rightarrow> Inl err
            | Inr pt \<Rightarrow> Inr \<lparr>Color = col, Point = Some pt\<rparr>))"

text \<open>
  Modelled from the spec: \<^verbatim>\<open>move.ListFromSGFPoints\<close>, which converts each raw value
  into a placement of the given color, in order, and fails if any of them fails
  (spec, section 4.3).
\<close>

fun ListFromSGFPoints ::
  "(string \<Rightarrow> error + 'p) \<Rightarrow> Color \<Rightarrow> string list \<Rightarrow> error + 'p Move list" where
  "ListFromSGFPoints NewFromSGF col [] = Inr []"
| "ListFromSGFPoints NewFromSGF col (sgfPt # sgfPts) =
     (case FromSGFPoint NewFromSGF col sgfPt of
        Inl err \<Rightarrow> Inl err
      | Inr mv \<Rightarrow>
          (case ListFromSGFPoints NewFromSGF col sgfPts of
             Inl err \<Rightarrow> Inl err
           | Inr mvs \<Rightarrow> Inr (mv # mvs)))"

text \<open>
  Modelled from the spec: the structs \<^verbatim>\<open>movetree.GameInfo\<close> and \<^verbatim>\<open>movetree.Node\<close>
  with the fields the converters read and write (spec, section 3). A nil pointer is
  \<open>None\<close>; \<^verbatim>\<open>&movetree.GameInfo{}\<close> is the struct of zero values.
\<close>

record GameInfo =
  Size :: int
  Komi :: "float64 option"
  Player :: Color

definition zero_GameInfo :: GameInfo where
  "zero_GameInfo = \<lparr>Size = 0, Komi = None, Player = []\<rparr>"

record 'p Node =
  GameInfo :: "GameInfo option"
  Move :: "'p Move option"
  Placements :: "'p Move list"

definition fresh_Node :: "'p Node" where
  "fresh_Node = \<lparr>GameInfo = None, Move = None, Placements = []\<rparr>"

text \<open>
  The statement \<^verbatim>\<open>if n.GameInfo == nil { n.GameInfo = &movetree.GameInfo{} }\<close>,
  shared by the decoders of SZ, KM and PL.
\<close>

definition ensure_GameInfo :: "'p Node \<Rightarrow> 'p Node" where
  "ensure_GameInfo n =
     (if GameInfo n = None then n\<lparr>GameInfo := Some zero_GameInfo\<rparr> else n)"

subsection \<open>Board size: SZ\<close>

definition SZ_From ::
  "'p Node \<Rightarrow> string \<Rightarrow> string list \<Rightarrow> ('p Node \<times> error option) outcome" where
  "SZ_From n prop data =
     (let l = length data in
      if l \<noteq> 1 then Returns (n, Some (SZ_arity prop l))
      else
        (case index data 0 of
           Panics p \<Rightarrow> Panics p
         | Returns d \<Rightarrow>
             (case Atoi d of
                Inl err \<Rightarrow> Returns (n, Some (SZ_not_integer prop data err))
              | Inr sz \<Rightarrow>
                  if sz < 1 \<or> sz > 25 then Returns (n, Some (SZ_out_of_range prop sz))
                  else
                    (let n1 = ensure_GameInfo n in
                     case GameInfo n1 of
                       None \<Rightarrow> Panics Nil_dereference
                     | Some gi \<Rightarrow>
                         Returns (n1\<lparr>GameInfo := Some (gi\<lparr>Size := sz\<rparr>)\<rparr>, None)))))"

definition SZ_To :: "'p Node \<Rightarrow> error + string" where
  "SZ_To n =
     (case GameInfo n of
        None \<Rightarrow> Inr []
      | Some gi \<Rightarrow>
          (let sz = Size gi in
           if sz = 0 then Inr []
           else if sz < 1 \<or> sz > 25 then Inl (SZ_invalid_size sz)
           else Inr (''SZ['' @ Itoa sz @ '']'')))"

subsection \<open>Placements: AB and AW\<close>

definition AB_AW_From ::
  "(string \<Rightarrow> error + 'p) \<Rightarrow> 'p Node \<Rightarrow> string \<Rightarrow> string list
     \<Rightarrow> ('p Node \<times> error option) outcome" where
  "AB_AW_From NewFromSGF n prop data =
     (case FromSGFProp prop of
        Inl err \<Rightarrow> Returns (n, Some err)
      | Inr col \<Rightarrow>
          (case ListFromSGFPoints NewFromSGF col data of
             Inl err \<Rightarrow> Returns (n, Some err)
           | Inr moves \<Rightarrow> Returns (n\<lparr>Placements := Placements n @ moves\<rparr>, None)))"

text \<open>
  The loop over \<^verbatim>\<open>n.Placements\<close>: it stops at the first point that fails to render,
  and collects the rendered points of the black and of the white placements; a
  placement of any other color is skipped.
\<close>

fun split_placements ::
  "('p option \<Rightarrow> error + string) \<Rightarrow> string list \<Rightarrow> string list \<Rightarrow> 'p Move list
     \<Rightarrow> error + (string list \<times> string list)" where
  "split_placements ToSGF black white [] = Inr (black, white)"
| "split_placements ToSGF black white (mv # mvs) =
     (case ToSGF (Point mv) of
        Inl err \<Rightarrow> Inl err
      | Inr sgfPt \<Rightarrow>
          if Color mv = Black then split_placements ToSGF (black @ [sgfPt]) white mvs
          else if Color mv = White then split_placements ToSGF black (white @ [sgfPt]) mvs
          else split_placements ToSGF black white mvs)"

definition bracketed :: "string list \<Rightarrow> string" where
  "bracketed pts = concat (map (\<lambda>pt. ''['' @ pt @ '']'') pts)"

definition AB_AW_To :: "('p option \<Rightarrow> error + string) \<Rightarrow> 'p Node \<Rightarrow> error + string" where
  "AB_AW_To ToSGF n =
     (if length (Placements n) = 0 then Inr []
      else
        (case split_placements ToSGF [] [] (Placements n) of
           Inl err \<Rightarrow> Inl err
         | Inr (black, white) \<Rightarrow>
             Inr ((if length black > 0 then ''AB'' else []) @ bracketed black
                  @ (if length white > 0 then ''AW'' else []) @ bracketed white)))"

subsection \<open>Moves: B and W\<close>

definition B_W_From ::
  "(string \<Rightarrow> error + 'p) \<Rightarrow> 'p Node \<Rightarrow> string \<Rightarrow> string list
     \<Rightarrow> ('p Node \<times> error option) outcome" where
  "B_W_From NewFromSGF n prop data =
     (case FromSGFProp prop of
        Inl err \<Rightarrow> Returns (n, Some err)
      | Inr col \<Rightarrow>
          if Move n \<noteq> None then Returns (n, Some Two_moves_on_node)
          else if length data \<noteq> 1 \<and> length data \<noteq> 0 then Returns (n, Some Move_arity)
          else
            (let data' = (if length data = 0 then [[]] else data) in
             case index data' 0 of
               Panics p \<Rightarrow> Panics p
             | Returns d \<Rightarrow>
                 (case FromSGFPoint NewFromSGF col d of
                    Inl err \<Rightarrow> Returns (n, Some err)
                  | Inr mv \<Rightarrow> Returns (n\<lparr>Move := Some mv\<rparr>, None))))"

definition B_W_To :: "('p option \<Rightarrow> error + string) \<Rightarrow> 'p Node \<Rightarrow> error + string" where
  "B_W_To ToSGF n =
     (case Move n of
        None \<Rightarrow> Inr []
      | Some mv \<Rightarrow>
          (let col = (if Color mv = Black then ''B''
                      else if Color mv = White then ''W'' else [])
           in if IsPass mv then Inr (col @ ''[]'')
              else (case ToSGF (Point mv) of
                      Inl err \<Rightarrow> Inl err
                    | Inr sgfPt \<Rightarrow> Inr (col @ ''['' @ sgfPt @ '']''))))"

subsection \<open>Komi: KM\<close>

definition KM_From ::
  "'p Node \<Rightarrow> string \<Rightarrow> string list \<Rightarrow> ('p Node \<times> error option) outcome" where
  "KM_From n prop data =
     (case index data 0 of
        Panics p \<Rightarrow> Panics p
      | Returns d \<Rightarrow>
          (case ParseFloat d of
             Inl err \<Rightarrow> Returns (n, Some err)
           | Inr komi \<Rightarrow>
               (let fp = snd (Modf komi) in
                if \<not> (feq fp Float_0_5 \<or> feq fp Float_0_0)
                then Returns (n, Some (KM_bad_fraction komi))
                else
                  (let n1 = ensure_GameInfo n in
                   case GameInfo n1 of
                     None \<Rightarrow> Panics Nil_dereference
                   | Some gi \<Rightarrow>
                       Returns (n1\<lparr>GameInfo := Some (gi\<lparr>Komi := Some komi\<rparr>)\<rparr>, None)))))"

definition KM_To :: "'p Node \<Rightarrow> error + string" where
  "KM_To n =
     (case GameInfo n of
        None \<Rightarrow> Inr []
      | Some gi \<Rightarrow>
          (case Komi gi of
             None \<Rightarrow> Inr []
           | Some komi \<Rightarrow>
               (let fp = snd (Modf komi) in
                if \<not> (feq fp Float_0_5 \<or> feq fp Float_0_0) then Inl (KM_invalid_komi komi)
                else Inr (''KM['' @ FormatFloat_f komi 1 @ '']''))))"

subsection \<open>Player to move: PL\<close>

definition PL_From ::
  "'p Node \<Rightarrow> string \<Rightarrow> string list \<Rightarrow> ('p Node \<times> error option) outcome" where
  "PL_From n prop data =
     (if length data \<noteq> 1 then Returns (n, Some (PL_arity (length data)))
      else
        (let n1 = ensure_GameInfo n in
         case index data 0 of
           Panics p \<Rightarrow> Panics p
         | Returns d \<Rightarrow>
             (case GameInfo n1 of
                None \<Rightarrow> Panics Nil_dereference
              | Some gi \<Rightarrow>
                  if d = ''B'' \<or> d = ''b'' then
                    Returns (n1\<lparr>GameInfo := Some (gi\<lparr>Player := Black\<rparr>)\<rparr>, None)
                  else if d = ''W'' \<or> d = ''w'' then
                    Returns (n1\<lparr>GameInfo := Some (gi\<lparr>Player := White\<rparr>)\<rparr>, None)
                  else Returns (n1, Some (PL_invalid_value d)))))"

definition PL_To :: "'p Node \<Rightarrow> error + string" where
  "PL_To n =
     (case GameInfo n of
        None \<Rightarrow> Inr []
      | Some gi \<Rightarrow>
          if Player gi = [] then Inr []
          else if Player gi = ''W'' \<or> Player gi = ''B'' then Inr (''PL['' @ Player gi @ '']'')
          else Inl (PL_invalid_player (Player gi)))"

subsection \<open>Notions of the specification\<close>

definition is_digit :: "char \<Rightarrow> bool" where
  "is_digit c = (digit_of c \<noteq> None)"

text \<open>
  The komi values of the specification, "value in {..., -0.5, 0.0, 0.5, ...}": the
  finite numbers whose double is an integer.
\<close>

definition spec_whole_or_half :: "float64 \<Rightarrow> bool" where
  "spec_whole_or_half x =
     (case x of Finite s m e \<Rightarrow> e \<ge> - 1 \<or> m mod 2 ^ nat (- e - 1) = 0 | _ \<Rightarrow> False)"

text \<open>The whole numbers among them: the finite numbers that are integers.\<close>

definition is_whole :: "float64 \<Rightarrow> bool" where
  "is_whole x = (case x of Finite s m e \<Rightarrow> e \<ge> 0 \<or> m mod 2 ^ nat (- e) = 0 | _ \<Rightarrow> False)"

text \<open>
  A point codec for the examples: a point is its two-letter coordinate.
\<close>

definition sample_NewFromSGF :: "string \<Rightarrow> error + string" where
  "sample_NewFromSGF s = (if length s = 2 then Inr s else Inl (Point_error s))"

definition sample_ToSGF :: "string option \<Rightarrow> error + string" where
  "sample_ToSGF p = (case p of None \<Rightarrow> Inl (Point_error []) | Some s \<Rightarrow> Inr s)"

section \<open>Properties\<close>

subsection \<open>Integers and their decimal text\<close>

lemma digit_char_eval:
  "digit_char 0 = CHR ''0''" "digit_char (Suc 0) = CHR ''1''" "digit_char 2 = CHR ''2''"
  "digit_char 3 = CHR ''3''" "digit_char 4 = CHR ''4''" "digit_char 5 = CHR ''5''"
  "digit_char 6 = CHR ''6''" "digit_char 7 = CHR ''7''" "digit_char 8 = CHR ''8''"
  "digit_char 9 = CHR ''9''"
  by code_simp+

lemmas Itoa_eval = Itoa_def nat_digits.simps digit_char_eval

lemma digit_of_digit_char: "d < 10 \<Longrightarrow> digit_of (digit_char d) = Some d"
  by (simp add: digit_of_def digit_char_def Let_def)

lemma is_digit_digit_char: "d < 10 \<Longrightarrow> is_digit (digit_char d)"
  by (simp add: is_digit_def digit_of_digit_char)

lemma parse_uint_append:
  "parse_uint n (cs @ [c]) =
     (case parse_uint n cs of
        Inl e \<Rightarrow> Inl e
      | Inr m \<Rightarrow> parse_uint m [c])"
  by (induction cs arbitrary: n) (auto split: option.splits)

text \<open>The digit loop reads back the digits of every number of 64 bits.\<close>

lemma parse_uint_nat_digits:
  "n \<le> maxUint64 \<Longrightarrow> parse_uint 0 (nat_digits n) = Inr n"
proof (induction n rule: nat_digits.induct)
  case (1 n)
  show ?case
  proof (cases "n < 10")
    case True
    then show ?thesis
      by (simp add: digit_of_digit_char maxUint64_def nat_digits.simps [of n])
  next
    case False
    have le: "n div 10 \<le> maxUint64" using "1.prems" by simp
    have ih: "parse_uint 0 (nat_digits (n div 10)) = Inr (n div 10)"
      using "1.IH" False le by simp
    have lt: "\<not> (n div 10 \<ge> maxUint64 div 10 + 1)"
      using "1.prems" by (simp add: maxUint64_def)
    have rec: "n div 10 * 10 + n mod 10 = n" by simp
    show ?thesis
      using False ih lt rec "1.prems"
      by (subst nat_digits.simps) (simp add: parse_uint_append digit_of_digit_char)
  qed
qed

lemma nat_digits_not_Nil: "nat_digits n \<noteq> []"
  by (subst nat_digits.simps) simp

lemma hd_nat_digits_digit: "digit_of (hd (nat_digits n)) \<noteq> None"
proof (induction n rule: nat_digits.induct)
  case (1 n)
  show ?case
  proof (cases "n < 10")
    case True
    then show ?thesis by (simp add: nat_digits.simps [of n] digit_of_digit_char)
  next
    case False
    then show ?thesis
      using "1.IH" by (subst nat_digits.simps) (simp add: nat_digits_not_Nil)
  qed
qed

lemma hd_nat_digits_no_sign:
  "hd (nat_digits n) \<noteq> CHR ''-''" "hd (nat_digits n) \<noteq> CHR ''+''"
  using hd_nat_digits_digit [of n] by (auto simp: digit_of_def)

lemma list_all_is_digit_nat_digits: "list_all is_digit (nat_digits n)"
proof (induction n rule: nat_digits.induct)
  case (1 n)
  show ?case
  proof (cases "n < 10")
    case True
    then show ?thesis
      by (simp add: nat_digits.simps [of n] is_digit_digit_char)
  next
    case False
    then show ?thesis
      using "1.IH" by (subst nat_digits.simps) (simp add: is_digit_digit_char)
  qed
qed

text \<open>\<^verbatim>\<open>Atoi\<close> reads back what \<^verbatim>\<open>Itoa\<close> prints, for every 64-bit integer.\<close>

lemma Atoi_Itoa:
  assumes "- (2 ^ 63) \<le> i" and "i < 2 ^ 63"
  shows "Atoi (Itoa i) = Inr i"
proof (cases "i < 0")
  case True
  have "nat (- i) \<le> maxUint64" using assms by (simp add: maxUint64_def)
  then have "parse_uint 0 (nat_digits (nat (- i))) = Inr (nat (- i))"
    by (rule parse_uint_nat_digits)
  moreover have "\<not> nat (- i) > 2 ^ 63" using assms by simp
  ultimately show ?thesis
    using True by (simp add: Atoi_def parse_int_def Itoa_def nat_digits_not_Nil)
next
  case False
  have "nat i \<le> maxUint64" using assms by (simp add: maxUint64_def)
  then have "parse_uint 0 (nat_digits (nat i)) = Inr (nat i)"
    by (rule parse_uint_nat_digits)
  moreover have "\<not> nat i \<ge> 2 ^ 63" using assms False by simp
  ultimately show ?thesis
    using False hd_nat_digits_no_sign [of "nat i"]
    by (simp add: Atoi_def parse_int_def Itoa_def nat_digits_not_Nil)
qed

lemma Atoi_eval:
  "Atoi ''abc'' = Inl (NumError ''Atoi'' ''abc'' ErrSyntax)"
  "Atoi ''1x'' = Inl (NumError ''Atoi'' ''1x'' ErrSyntax)"
  "Atoi ''0'' = Inr 0" "Atoi ''26'' = Inr 26" "Atoi ''-1'' = Inr (- 1)" "Atoi ''19'' = Inr 19"
  by (simp_all add: Atoi_def parse_int_def digit_of_def maxUint64_def)

subsection \<open>Board size\<close>

lemma SZ_From_arity:
  "length data \<noteq> 1 \<Longrightarrow> SZ_From n prop data = Returns (n, Some (SZ_arity prop (length data)))"
  by (simp add: SZ_From_def)

lemma SZ_From_not_integer:
  "Atoi d = Inl err \<Longrightarrow> SZ_From n prop [d] = Returns (n, Some (SZ_not_integer prop [d] err))"
  by (simp add: SZ_From_def index_def)

lemma SZ_From_out_of_range:
  "Atoi d = Inr sz \<Longrightarrow> sz < 1 \<or> 25 < sz \<Longrightarrow>
   SZ_From n prop [d] = Returns (n, Some (SZ_out_of_range prop sz))"
  by (auto simp add: SZ_From_def index_def)

lemma SZ_From_ok:
  "Atoi d = Inr sz \<Longrightarrow> 1 \<le> sz \<Longrightarrow> sz \<le> 25 \<Longrightarrow>
   SZ_From n prop [d] =
     Returns (n\<lparr>GameInfo := Some ((case GameInfo n of None \<Rightarrow> zero_GameInfo | Some gi \<Rightarrow> gi)
                                   \<lparr>Size := sz\<rparr>)\<rparr>, None)"
  by (cases "GameInfo n") (simp_all add: SZ_From_def index_def ensure_GameInfo_def)

text \<open>
  C3. For every integer \<open>s\<close> from 1 to 25, decoding SZ with the single raw value \<open>s\<close>
  (its decimal text, as \<^verbatim>\<open>Itoa\<close> prints it) succeeds, on a fresh node as on any
  other, the node then holds the size \<open>s\<close>, and encoding it yields exactly
  \<^verbatim>\<open>SZ[s]\<close>.
\<close>

theorem SZ_round_trip:
  assumes "1 \<le> s" and "s \<le> 25"
  shows "\<exists>n' gi. SZ_From n ''SZ'' [Itoa s] = Returns (n', None)
            \<and> GameInfo n' = Some gi \<and> Size gi = s
            \<and> SZ_To n' = Inr (''SZ['' @ Itoa s @ '']'')"
proof -
  let ?gi = "(case GameInfo n of None \<Rightarrow> zero_GameInfo | Some gi \<Rightarrow> gi)\<lparr>Size := s\<rparr>"
  have "Atoi (Itoa s) = Inr s" using assms by (intro Atoi_Itoa) simp_all
  then have "SZ_From n ''SZ'' [Itoa s] = Returns (n\<lparr>GameInfo := Some ?gi\<rparr>, None)"
    using assms by (rule SZ_From_ok)
  moreover have "SZ_To (n\<lparr>GameInfo := Some ?gi\<rparr>) = Inr (''SZ['' @ Itoa s @ '']'')"
    using assms by (simp add: SZ_To_def)
  moreover have "GameInfo (n\<lparr>GameInfo := Some ?gi\<rparr>) = Some ?gi" and "Size ?gi = s"
    by simp_all
  ultimately show ?thesis by blast
qed

theorem SZ_round_trip_witness:
  "(1::int) \<le> 19 \<and> (19::int) \<le> 25
   \<and> (\<exists>n' gi. SZ_From (fresh_Node :: unit Node) ''SZ'' [''19''] = Returns (n', None)
          \<and> GameInfo n' = Some gi \<and> Size gi = 19
          \<and> SZ_To n' = Inr ''SZ[19]'')"
  using SZ_round_trip [of 19 "fresh_Node :: unit Node"]
  by (simp add: Itoa_eval)

text \<open>
  C9. Decoding SZ fails with the arity error for every list of raw values whose length
  is not 1; with the error of the integer parser when the single value does not parse
  as an integer (\<^verbatim>\<open>SZ[abc]\<close>: a syntax error); with the range error when the integer
  is below 1 or above 25 (\<^verbatim>\<open>SZ[0]\<close>, \<^verbatim>\<open>SZ[26]\<close>, \<^verbatim>\<open>SZ[-1]\<close>); and succeeds
  in every other case, setting the size. A failing call leaves the node as it was.
\<close>

theorem SZ_From_cases:
  "(length data \<noteq> 1 \<longrightarrow>
      SZ_From n prop data = Returns (n, Some (SZ_arity prop (length data))))
   \<and> (\<forall>err. Atoi d = Inl err \<longrightarrow>
      SZ_From n prop [d] = Returns (n, Some (SZ_not_integer prop [d] err)))
   \<and> (\<forall>sz. Atoi d = Inr sz \<and> (sz < 1 \<or> 25 < sz) \<longrightarrow>
      SZ_From n prop [d] = Returns (n, Some (SZ_out_of_range prop sz)))
   \<and> (\<forall>sz. Atoi d = Inr sz \<and> 1 \<le> sz \<and> sz \<le> 25 \<longrightarrow>
      SZ_From n prop [d] =
        Returns (n\<lparr>GameInfo := Some ((case GameInfo n of None \<Rightarrow> zero_GameInfo | Some gi \<Rightarrow> gi)
                                      \<lparr>Size := sz\<rparr>)\<rparr>, None))
   \<and> SZ_From n prop [''abc''] =
        Returns (n, Some (SZ_not_integer prop [''abc''] (NumError ''Atoi'' ''abc'' ErrSyntax)))
   \<and> SZ_From n prop [''0''] = Returns (n, Some (SZ_out_of_range prop 0))
   \<and> SZ_From n prop [''26''] = Returns (n, Some (SZ_out_of_range prop 26))
   \<and> SZ_From n prop [''-1''] = Returns (n, Some (SZ_out_of_range prop (- 1)))"
  by (simp add: SZ_From_arity SZ_From_not_integer SZ_From_out_of_range SZ_From_ok Atoi_eval)

theorem SZ_From_cases_witness:
  "length ([] :: string list) \<noteq> 1
   \<and> SZ_From (fresh_Node :: unit Node) ''SZ'' [] = Returns (fresh_Node, Some (SZ_arity ''SZ'' 0))
   \<and> Atoi ''1x'' = Inl (NumError ''Atoi'' ''1x'' ErrSyntax)
   \<and> SZ_From (fresh_Node :: unit Node) ''SZ'' [''1x''] =
        Returns (fresh_Node,
                 Some (SZ_not_integer ''SZ'' [''1x''] (NumError ''Atoi'' ''1x'' ErrSyntax)))
   \<and> Atoi ''26'' = Inr 26
   \<and> SZ_From (fresh_Node :: unit Node) ''SZ'' [''26''] =
        Returns (fresh_Node, Some (SZ_out_of_range ''SZ'' 26))
   \<and> Atoi ''19'' = Inr 19
   \<and> SZ_From (fresh_Node :: unit Node) ''SZ'' [''19''] =
        Returns (fresh_Node\<lparr>GameInfo := Some (zero_GameInfo\<lparr>Size := 19\<rparr>)\<rparr>, None)"
proof -
  have g: "GameInfo (fresh_Node :: unit Node) = None" by (simp add: fresh_Node_def)
  show ?thesis
    using SZ_From_cases [of "[]" "fresh_Node :: unit Node" "''SZ''" "''1x''"]
      SZ_From_cases [of "[]" "fresh_Node :: unit Node" "''SZ''" "''26''"]
      SZ_From_cases [of "[]" "fresh_Node :: unit Node" "''SZ''" "''19''"]
    by (simp add: g Atoi_eval)
qed

subsection \<open>Placements\<close>

lemma Black_neq_White: "Black \<noteq> White" "White \<noteq> Black"
  by (simp_all add: Black_def White_def)

lemma ListFromSGFPoints_length:
  "ListFromSGFPoints NewFromSGF col data = Inr moves \<Longrightarrow> length moves = length data"
  by (induction data arbitrary: moves) (auto split: sum.splits)

lemma AB_AW_From_appends:
  assumes "AB_AW_From NewFromSGF n prop data = Returns (n', None)"
  shows "\<exists>moves. length moves = length data \<and> n' = n\<lparr>Placements := Placements n @ moves\<rparr>"
  using assms
  by (auto simp add: AB_AW_From_def dest: ListFromSGFPoints_length split: sum.splits)

lemma split_placements_filter:
  assumes "\<forall>mv \<in> set mvs. ToSGF (Point mv) = Inr (r mv)"
  shows "split_placements ToSGF black white mvs =
           Inr (black @ map r (filter (\<lambda>mv. Color mv = Black) mvs),
                white @ map r (filter (\<lambda>mv. Color mv = White) mvs))"
  using assms
  by (induction mvs arbitrary: black white) (auto simp add: Black_neq_White)

lemma AB_AW_To_grouped:
  assumes "\<forall>mv \<in> set (Placements n). ToSGF (Point mv) = Inr (r mv)"
  shows "AB_AW_To ToSGF n =
           Inr ((if filter (\<lambda>mv. Color mv = Black) (Placements n) \<noteq> [] then ''AB'' else [])
                @ bracketed (map r (filter (\<lambda>mv. Color mv = Black) (Placements n)))
                @ (if filter (\<lambda>mv. Color mv = White) (Placements n) \<noteq> [] then ''AW'' else [])
                @ bracketed (map r (filter (\<lambda>mv. Color mv = White) (Placements n))))"
proof (cases "Placements n = []")
  case True
  then show ?thesis by (simp add: AB_AW_To_def bracketed_def)
next
  case False
  then show ?thesis
    using split_placements_filter [OF assms, of "[]" "[]"]
    by (simp add: AB_AW_To_def)
qed

text \<open>
  C7. A successful placement decode appends one placement for each raw value to the
  placements the node already holds, so that repeated calls accumulate. Encoding a
  node whose points all render yields the black placements first, then the white ones,
  each group in the order of the node's list. With a point codec that reads \<^verbatim>\<open>dd\<close>,
  \<^verbatim>\<open>pp\<close> and \<^verbatim>\<open>cc\<close> and renders them back, decoding \<^verbatim>\<open>AB[dd][pp]\<close> and then
  \<^verbatim>\<open>AW[cc]\<close> on a node without placements, then encoding, yields exactly
  \<^verbatim>\<open>AB[dd][pp]AW[cc]\<close>.
\<close>

theorem placements_accumulate:
  assumes "NewFromSGF ''dd'' = Inr p1" and "NewFromSGF ''pp'' = Inr p2"
    and "NewFromSGF ''cc'' = Inr p3"
    and "ToSGF (Some p1) = Inr ''dd''" and "ToSGF (Some p2) = Inr ''pp''"
    and "ToSGF (Some p3) = Inr ''cc''"
    and "Placements n = []"
  shows "(\<forall>m pc data m'. AB_AW_From NewFromSGF m pc data = Returns (m', None) \<longrightarrow>
            (\<exists>moves. length moves = length data
                     \<and> m' = m\<lparr>Placements := Placements m @ moves\<rparr>))
         \<and> (\<forall>m r. (\<forall>mv \<in> set (Placements m). ToSGF (Point mv) = Inr (r mv)) \<longrightarrow>
              AB_AW_To ToSGF m =
                Inr ((if filter (\<lambda>mv. Color mv = Black) (Placements m) \<noteq> [] then ''AB'' else [])
                     @ bracketed (map r (filter (\<lambda>mv. Color mv = Black) (Placements m)))
                     @ (if filter (\<lambda>mv. Color mv = White) (Placements m) \<noteq> [] then ''AW'' else [])
                     @ bracketed (map r (filter (\<lambda>mv. Color mv = White) (Placements m)))))
         \<and> (\<exists>n1 n2.
              AB_AW_From NewFromSGF n ''AB'' [''dd'', ''pp''] = Returns (n1, None)
            \<and> AB_AW_From NewFromSGF n1 ''AW'' [''cc''] = Returns (n2, None)
            \<and> Placements n2 =
                 [\<lparr>Color = Black, Point = Some p1\<rparr>, \<lparr>Color = Black, Point = Some p2\<rparr>,
                  \<lparr>Color = White, Point = Some p3\<rparr>]
            \<and> AB_AW_To ToSGF n2 = Inr ''AB[dd][pp]AW[cc]'')"
proof (intro conjI allI impI)
  fix m :: "'a Node" and pc data m'
  assume "AB_AW_From NewFromSGF m pc data = Returns (m', None)"
  then show "\<exists>moves. length moves = length data \<and> m' = m\<lparr>Placements := Placements m @ moves\<rparr>"
    by (rule AB_AW_From_appends)
next
  fix m :: "'a Node" and r
  assume "\<forall>mv \<in> set (Placements m). ToSGF (Point mv) = Inr (r mv)"
  then show "AB_AW_To ToSGF m =
      Inr ((if filter (\<lambda>mv. Color mv = Black) (Placements m) \<noteq> [] then ''AB'' else [])
           @ bracketed (map r (filter (\<lambda>mv. Color mv = Black) (Placements m)))
           @ (if filter (\<lambda>mv. Color mv = White) (Placements m) \<noteq> [] then ''AW'' else [])
           @ bracketed (map r (filter (\<lambda>mv. Color mv = White) (Placements m))))"
    by (rule AB_AW_To_grouped)
next
  let ?b1 = "\<lparr>Color = Black, Point = Some p1\<rparr>"
  let ?b2 = "\<lparr>Color = Black, Point = Some p2\<rparr>"
  let ?w3 = "\<lparr>Color = White, Point = Some p3\<rparr>"
  let ?n1 = "n\<lparr>Placements := [?b1, ?b2]\<rparr>"
  let ?n2 = "n\<lparr>Placements := [?b1, ?b2, ?w3]\<rparr>"
  have 1: "AB_AW_From NewFromSGF n ''AB'' [''dd'', ''pp''] = Returns (?n1, None)"
    using assms by (simp add: AB_AW_From_def FromSGFProp_def FromSGFPoint_def)
  have 2: "AB_AW_From NewFromSGF ?n1 ''AW'' [''cc''] = Returns (?n2, None)"
    using assms by (simp add: AB_AW_From_def FromSGFProp_def FromSGFPoint_def)
  have 3: "AB_AW_To ToSGF ?n2 = Inr ''AB[dd][pp]AW[cc]''"
    using assms by (simp add: AB_AW_To_def Black_neq_White bracketed_def)
  have 4: "Placements ?n2 = [?b1, ?b2, ?w3]" by simp
  from 1 2 3 4 show "\<exists>n1 n2.
              AB_AW_From NewFromSGF n ''AB'' [''dd'', ''pp''] = Returns (n1, None)
            \<and> AB_AW_From NewFromSGF n1 ''AW'' [''cc''] = Returns (n2, None)
            \<and> Placements n2 = [?b1, ?b2, ?w3]
            \<and> AB_AW_To ToSGF n2 = Inr ''AB[dd][pp]AW[cc]''"
    by blast
qed

theorem placements_accumulate_witness:
  "sample_NewFromSGF ''dd'' = Inr ''dd'' \<and> sample_NewFromSGF ''pp'' = Inr ''pp''
   \<and> sample_NewFromSGF ''cc'' = Inr ''cc''
   \<and> sample_ToSGF (Some ''dd'') = Inr ''dd'' \<and> sample_ToSGF (Some ''pp'') = Inr ''pp''
   \<and> sample_ToSGF (Some ''cc'') = Inr ''cc''
   \<and> Placements (fresh_Node :: string Node) = []
   \<and> (\<exists>n1 n2.
          AB_AW_From sample_NewFromSGF fresh_Node ''AB'' [''dd'', ''pp''] = Returns (n1, None)
        \<and> AB_AW_From sample_NewFromSGF n1 ''AW'' [''cc''] = Returns (n2, None)
        \<and> Placements n2 =
             [\<lparr>Color = Black, Point = Some ''dd''\<rparr>, \<lparr>Color = Black, Point = Some ''pp''\<rparr>,
              \<lparr>Color = White, Point = Some ''cc''\<rparr>]
        \<and> AB_AW_To sample_ToSGF n2 = Inr ''AB[dd][pp]AW[cc]'')"
proof -
  have a: "sample_NewFromSGF ''dd'' = Inr ''dd''" "sample_NewFromSGF ''pp'' = Inr ''pp''"
    "sample_NewFromSGF ''cc'' = Inr ''cc''"
    by (simp_all add: sample_NewFromSGF_def)
  have b: "sample_ToSGF (Some ''dd'') = Inr ''dd''" "sample_ToSGF (Some ''pp'') = Inr ''pp''"
    "sample_ToSGF (Some ''cc'') = Inr ''cc''"
    by (simp_all add: sample_ToSGF_def)
  have c: "Placements (fresh_Node :: string Node) = []" by (simp add: fresh_Node_def)
  show ?thesis
    using a b c placements_accumulate [OF a b c] by blast
qed

subsection \<open>Moves\<close>

text \<open>
  C5. On a node that already holds a move, decoding a move property, B or W, with any
  raw values, returns the error "found two moves on one node at move", and the node,
  its move included, is as it was.
\<close>

theorem B_W_From_second_move_fails:
  assumes "Move n = Some mv" and "prop = ''B'' \<or> prop = ''W''"
  shows "B_W_From NewFromSGF n prop data = Returns (n, Some Two_moves_on_node)"
  using assms by (auto simp add: B_W_From_def FromSGFProp_def)

theorem B_W_From_second_move_fails_witness:
  "B_W_From sample_NewFromSGF
     (fresh_Node\<lparr>Move := Some \<lparr>Color = Black, Point = None\<rparr>\<rparr>) ''W'' [''dp'']
   = Returns (fresh_Node\<lparr>Move := Some \<lparr>Color = Black, Point = None\<rparr>\<rparr>, Some Two_moves_on_node)"
  using B_W_From_second_move_fails
    [of "fresh_Node\<lparr>Move := Some \<lparr>Color = Black, Point = None\<rparr>\<rparr>"
        "\<lparr>Color = Black, Point = None\<rparr>" "''W''" sample_NewFromSGF "[''dp'']"]
  by simp

text \<open>
  C6. On a node without a move, decoding B with no raw value, or with the single empty
  value, succeeds and sets the pass move of Black; encoding the node then yields
  exactly \<^verbatim>\<open>B[]\<close>.
\<close>

theorem B_pass_round_trip:
  assumes "Move n = None" and "data = [] \<or> data = [[]]"
  shows "B_W_From NewFromSGF n ''B'' data =
           Returns (n\<lparr>Move := Some \<lparr>Color = Black, Point = None\<rparr>\<rparr>, None)
         \<and> IsPass \<lparr>Color = Black, Point = (None :: 'p option)\<rparr>
         \<and> B_W_To ToSGF (n\<lparr>Move := Some \<lparr>Color = Black, Point = None\<rparr>\<rparr>) = Inr ''B[]''"
  using assms
  by (auto simp add: B_W_From_def FromSGFProp_def FromSGFPoint_def index_def
      B_W_To_def IsPass_def)

theorem B_pass_round_trip_witness:
  "Move (fresh_Node :: string Node) = None
   \<and> B_W_From sample_NewFromSGF (fresh_Node :: string Node) ''B'' [[]] =
           Returns (fresh_Node\<lparr>Move := Some \<lparr>Color = Black, Point = None\<rparr>\<rparr>, None)
   \<and> B_W_To sample_ToSGF
         ((fresh_Node :: string Node)\<lparr>Move := Some \<lparr>Color = Black, Point = None\<rparr>\<rparr>) = Inr ''B[]''"
proof -
  have m: "Move (fresh_Node :: string Node) = None" by (simp add: fresh_Node_def)
  show ?thesis
    using m B_pass_round_trip [OF m, of "[[]]" sample_NewFromSGF sample_ToSGF]
    by blast
qed

subsection \<open>Komi\<close>

lemma bitlen_eval: "bitlen 65 = 7" "bitlen 63 = 6" "bitlen 60 = 6" "bitlen 10 = 4" "bitlen 5 = 3"
  by (simp_all add: bitlen.simps)

lemmas readFloat_eval =
  readFloat_def strip_sign_def digit_of_def push_digit_def finishFloat_def

lemmas round_float64_eval =
  round_float64_def bitlen_eval ge_pow2_def round_half_even_def Let_def

lemma ParseFloat_6_5: "ParseFloat ''6.5'' = Inr (Finite False 7318349394477056 (- 50))"
proof -
  have "special ''6.5'' = None" by (simp add: special_def)
  moreover have "readFloat ''6.5'' = Some (False, False, 65, - 1, [])"
    by (simp add: readFloat_eval)
  moreover have "round_float64 False 65 10 = Some (Finite False 7318349394477056 (- 50))"
    by (simp add: round_float64_eval)
  ultimately show ?thesis by (simp add: ParseFloat_def)
qed

lemma ParseFloat_6_3: "ParseFloat ''6.3'' = Inr (Finite False 7093169413108531 (- 50))"
proof -
  have "special ''6.3'' = None" by (simp add: special_def)
  moreover have "readFloat ''6.3'' = Some (False, False, 63, - 1, [])"
    by (simp add: readFloat_eval)
  moreover have "round_float64 False 63 10 = Some (Finite False 7093169413108531 (- 50))"
    by (simp add: round_float64_eval)
  ultimately show ?thesis by (simp add: ParseFloat_def)
qed

lemma ParseFloat_6_0: "ParseFloat ''6.0'' = Inr (Finite False 6755399441055744 (- 50))"
proof -
  have "special ''6.0'' = None" by (simp add: special_def)
  moreover have "readFloat ''6.0'' = Some (False, False, 60, - 1, [])"
    by (simp add: readFloat_eval)
  moreover have "round_float64 False 60 10 = Some (Finite False 6755399441055744 (- 50))"
    by (simp add: round_float64_eval)
  ultimately show ?thesis by (simp add: ParseFloat_def)
qed

lemma ParseFloat_minus_0_5:
  "ParseFloat ''-0.5'' = Inr (Finite True 4503599627370496 (- 53))"
proof -
  have "special ''-0.5'' = None" by (simp add: special_def inf_len_def eq_fold_def)
  moreover have "readFloat ''-0.5'' = Some (True, False, 5, - 1, [])"
    by (simp add: readFloat_eval)
  moreover have "round_float64 True 5 10 = Some (Finite True 4503599627370496 (- 53))"
    by (simp add: round_float64_eval)
  ultimately show ?thesis by (simp add: ParseFloat_def)
qed

lemma FormatFloat_eval:
  "FormatFloat_f (Finite False 7318349394477056 (- 50)) 1 = ''6.5''"
  "FormatFloat_f (Finite False 6755399441055744 (- 50)) 1 = ''6.0''"
  by (simp_all add: FormatFloat_f_def round_half_even_def Let_def nat_digits.simps
      digit_char_eval)

lemma KM_From_ok:
  assumes "ParseFloat d = Inr komi"
    and "feq (snd (Modf komi)) Float_0_5 \<or> feq (snd (Modf komi)) Float_0_0"
  shows "KM_From n prop (d # ds) =
     Returns (n\<lparr>GameInfo := Some ((case GameInfo n of None \<Rightarrow> zero_GameInfo | Some gi \<Rightarrow> gi)
                                   \<lparr>Komi := Some komi\<rparr>)\<rparr>, None)"
  using assms
  by (cases "GameInfo n") (auto simp add: KM_From_def index_def ensure_GameInfo_def Let_def)

lemma KM_From_bad_fraction:
  assumes "ParseFloat d = Inr komi"
    and "\<not> feq (snd (Modf komi)) Float_0_5" and "\<not> feq (snd (Modf komi)) Float_0_0"
  shows "KM_From n prop (d # ds) = Returns (n, Some (KM_bad_fraction komi))"
  using assms by (simp add: KM_From_def index_def)

lemma KM_To_ok:
  assumes "GameInfo n = Some gi" and "Komi gi = Some komi"
    and "feq (snd (Modf komi)) Float_0_5 \<or> feq (snd (Modf komi)) Float_0_0"
  shows "KM_To n = Inr (''KM['' @ FormatFloat_f komi 1 @ '']'')"
  using assms by (auto simp add: KM_To_def Let_def)

text \<open>
  The test of the decoder and of the encoder of KM, on a finite float: the fractional
  part is 0.5 or 0.0 exactly when the value is a whole number of either sign, or a half
  point that is not negative.
\<close>

lemma mod_half_power:
  fixes m :: nat
  shows "m mod 2 ^ k = 0 \<longleftrightarrow> m mod 2 ^ Suc k = 0 \<or> m mod 2 ^ Suc k = 2 ^ k"
proof -
  have "m mod (2 ^ k * 2) = 2 ^ k * (m div 2 ^ k mod 2) + m mod 2 ^ k"
    by (rule mod_mult2_eq)
  then have split: "m mod 2 ^ Suc k = 2 ^ k * (m div 2 ^ k mod 2) + m mod 2 ^ k"
    by (simp only: power_Suc mult.commute)
  define r where "r = m mod 2 ^ k"
  have "r < 2 ^ k" by (simp add: r_def)
  then have ne: "r \<noteq> 2 ^ k" by simp
  show ?thesis
  proof (cases "m div 2 ^ k mod 2 = 0")
    case True
    with split have "m mod 2 ^ Suc k = r" by (simp add: r_def)
    with ne show ?thesis by (simp add: r_def)
  next
    case False
    then have "m div 2 ^ k mod 2 = 1" by presburger
    with split have "m mod 2 ^ Suc k = 2 ^ k + r" by (simp add: r_def)
    then show ?thesis by (simp add: r_def)
  qed
qed

lemma Modf_fraction_zero:
  "feq (snd (Modf (Finite s m e))) Float_0_0 \<longleftrightarrow> e \<ge> 0 \<or> m mod 2 ^ nat (- e) = 0"
  by (auto simp add: Float_0_0_def)

lemma Modf_fraction_half:
  "feq (snd (Modf (Finite s m e))) Float_0_5 \<longleftrightarrow>
     e < 0 \<and> \<not> s \<and> m mod 2 ^ nat (- e) = 2 ^ (nat (- e) - 1)"
proof (cases "e \<ge> 0")
  case True
  then show ?thesis by (simp add: Float_0_5_def)
next
  case False
  then have m: "min e (- 1) = e" by simp
  have n: "nat (- 1 - e) = nat (- e) - 1" using False by simp
  show ?thesis
    using False by (auto simp add: Float_0_5_def m n)
qed

lemma KM_test_iff:
  "feq (snd (Modf (Finite s m e))) Float_0_5 \<or> feq (snd (Modf (Finite s m e))) Float_0_0
   \<longleftrightarrow> spec_whole_or_half (Finite s m e)
        \<and> (is_whole (Finite s m e) \<or> \<not> s)"
proof (cases "e \<ge> 0")
  case True
  then show ?thesis
    unfolding Modf_fraction_zero Modf_fraction_half
    by (simp add: spec_whole_or_half_def is_whole_def)
next
  case False
  then obtain k where k: "nat (- e) = Suc k" by (cases "nat (- e)") auto
  then have k1: "nat (- e - 1) = k" "nat (- e) - 1 = k" by simp_all
  have lt: "e < 0" using False by simp
  have ge: "e \<ge> - 1 \<longleftrightarrow> k = 0" using k lt by auto
  show ?thesis
    unfolding Modf_fraction_zero Modf_fraction_half
    using lt mod_half_power [of m k]
    by (auto simp add: spec_whole_or_half_def is_whole_def k k1 ge simp del: power_Suc)
qed

lemma KM_From_whole_or_positive_half:
  assumes "ParseFloat d = Inr (Finite s m e)"
    and "spec_whole_or_half (Finite s m e)"
    and "is_whole (Finite s m e) \<or> \<not> s"
  shows "KM_From n prop (d # ds) =
     Returns (n\<lparr>GameInfo := Some ((case GameInfo n of None \<Rightarrow> zero_GameInfo | Some gi \<Rightarrow> gi)
                                   \<lparr>Komi := Some (Finite s m e)\<rparr>)\<rparr>, None)"
  using assms(2,3) by (intro KM_From_ok [OF assms(1)]) (simp only: KM_test_iff)

lemma KM_From_negative_half:
  assumes "ParseFloat d = Inr (Finite True m e)"
    and "\<not> is_whole (Finite True m e)"
  shows "KM_From n prop (d # ds) = Returns (n, Some (KM_bad_fraction (Finite True m e)))"
proof -
  have "\<not> (feq (snd (Modf (Finite True m e))) Float_0_5
           \<or> feq (snd (Modf (Finite True m e))) Float_0_0)"
    using assms(2) by (simp only: KM_test_iff) simp
  then show ?thesis
    using KM_From_bad_fraction [OF assms(1)] by blast
qed

text \<open>
  C2. Called with an empty list of raw values, the decoder of KM does not return: the
  read of \<^verbatim>\<open>data[0]\<close> panics, index out of range [0] with length 0.
\<close>

theorem KM_From_empty_data_panics:
  "KM_From n prop [] = Panics (Index_out_of_range 0 0)"
  by (simp add: KM_From_def index_def)

text \<open>
  C1. The raw value \<^verbatim>\<open>-0.5\<close> parses as the float of that value, a half point of the
  specification's set of komi values, and the decoder of KM rejects it: the fractional
  part that \<^verbatim>\<open>math.Modf\<close> returns is \<open>-0.5\<close>, which is neither \<open>0.5\<close> nor \<open>0.0\<close>.
  The node is left as it was. The same holds for every negative value that is not whole
  (\<open>KM_From_negative_half\<close>), while every whole value and every half point that is
  not negative is stored (\<open>KM_From_whole_or_positive_half\<close>).
\<close>

theorem KM_From_negative_half_rejected:
  "ParseFloat ''-0.5'' = Inr (Finite True 4503599627370496 (- 53))
   \<and> spec_whole_or_half (Finite True 4503599627370496 (- 53))
   \<and> KM_From n prop [''-0.5''] =
       Returns (n, Some (KM_bad_fraction (Finite True 4503599627370496 (- 53))))"
proof -
  have "KM_From n prop [''-0.5''] =
       Returns (n, Some (KM_bad_fraction (Finite True 4503599627370496 (- 53))))"
    by (rule KM_From_bad_fraction [OF ParseFloat_minus_0_5])
       (simp_all add: Float_0_5_def Float_0_0_def)
  then show ?thesis
    by (simp add: ParseFloat_minus_0_5 spec_whole_or_half_def)
qed

lemma FormatFloat_f_1_shape:
  "\<exists>ip d. FormatFloat_f (Finite s m e) 1 = (if s then ''-'' else []) @ ip @ ''.'' @ [d]
          \<and> ip \<noteq> [] \<and> list_all is_digit ip \<and> is_digit d"
  by (simp add: FormatFloat_f_def Let_def nat_digits_not_Nil list_all_is_digit_nat_digits
      is_digit_digit_char)

lemma KM_To_Some_Finite:
  assumes "KM_To n = Inr s" and "s \<noteq> []"
  shows "\<exists>gi neg m e. GameInfo n = Some gi \<and> Komi gi = Some (Finite neg m e)
           \<and> s = ''KM['' @ FormatFloat_f (Finite neg m e) 1 @ '']''"
proof -
  from assms obtain gi where gi: "GameInfo n = Some gi"
    by (cases "GameInfo n") (auto simp add: KM_To_def)
  from assms gi obtain komi where k: "Komi gi = Some komi"
    by (cases "Komi gi") (auto simp add: KM_To_def)
  from assms gi k have ok: "feq (snd (Modf komi)) Float_0_5 \<or> feq (snd (Modf komi)) Float_0_0"
    and s: "s = ''KM['' @ FormatFloat_f komi 1 @ '']''"
    by (auto simp add: KM_To_def Let_def split: if_splits)
  from ok obtain neg m e where "komi = Finite neg m e"
    by (cases komi) (auto simp add: Float_0_5_def Float_0_0_def)
  with gi k s show ?thesis by blast
qed

lemma KM_To_one_fraction_digit:
  assumes "KM_To n = Inr s" and "s \<noteq> []"
  shows "\<exists>sg ip d. s = ''KM['' @ sg @ ip @ ''.'' @ [d] @ '']''
           \<and> (sg = [] \<or> sg = ''-'') \<and> ip \<noteq> [] \<and> list_all is_digit ip \<and> is_digit d"
proof -
  from KM_To_Some_Finite [OF assms] obtain neg m e
    where s: "s = ''KM['' @ FormatFloat_f (Finite neg m e) 1 @ '']''" by blast
  from FormatFloat_f_1_shape [of neg m e] obtain ip d
    where f: "FormatFloat_f (Finite neg m e) 1 = (if neg then ''-'' else []) @ ip @ ''.'' @ [d]"
      and p: "ip \<noteq> []" "list_all is_digit ip" "is_digit d" by blast
  have "s = ''KM['' @ (if neg then ''-'' else []) @ ip @ ''.'' @ [d] @ '']''"
    using s f by simp
  moreover have "(if neg then ''-'' else []) = [] \<or> (if neg then ''-'' else []) = ''-''"
    by simp
  ultimately show ?thesis using p by blast
qed

lemma KM_6_5_round_trip:
  "KM_From fresh_Node ''KM'' [''6.5''] =
     Returns (fresh_Node\<lparr>GameInfo := Some (zero_GameInfo
                \<lparr>Komi := Some (Finite False 7318349394477056 (- 50))\<rparr>)\<rparr>, None)"
  "KM_To (fresh_Node\<lparr>GameInfo := Some (zero_GameInfo
            \<lparr>Komi := Some (Finite False 7318349394477056 (- 50))\<rparr>)\<rparr>) = Inr ''KM[6.5]''"
proof -
  let ?k = "Finite False 7318349394477056 (- 50)"
  have ok: "feq (snd (Modf ?k)) Float_0_5 \<or> feq (snd (Modf ?k)) Float_0_0"
    by (simp add: Float_0_5_def)
  show "KM_From fresh_Node ''KM'' [''6.5''] =
      Returns (fresh_Node\<lparr>GameInfo := Some (zero_GameInfo\<lparr>Komi := Some ?k\<rparr>)\<rparr>, None)"
    using KM_From_ok [OF ParseFloat_6_5 ok, of fresh_Node "''KM''" "[]"]
    by (simp add: fresh_Node_def)
  have "KM_To (fresh_Node\<lparr>GameInfo := Some (zero_GameInfo\<lparr>Komi := Some ?k\<rparr>)\<rparr>)
          = Inr (''KM['' @ FormatFloat_f ?k 1 @ '']'')"
    by (rule KM_To_ok [where gi = "zero_GameInfo\<lparr>Komi := Some ?k\<rparr>", OF _ _ ok]) simp_all
  then show "KM_To (fresh_Node\<lparr>GameInfo := Some (zero_GameInfo\<lparr>Komi := Some ?k\<rparr>)\<rparr>)
          = Inr ''KM[6.5]''"
    unfolding FormatFloat_eval by simp
qed

lemma KM_6_0_round_trip:
  "KM_From fresh_Node ''KM'' [''6.0''] =
     Returns (fresh_Node\<lparr>GameInfo := Some (zero_GameInfo
                \<lparr>Komi := Some (Finite False 6755399441055744 (- 50))\<rparr>)\<rparr>, None)"
  "KM_To (fresh_Node\<lparr>GameInfo := Some (zero_GameInfo
            \<lparr>Komi := Some (Finite False 6755399441055744 (- 50))\<rparr>)\<rparr>) = Inr ''KM[6.0]''"
proof -
  let ?k = "Finite False 6755399441055744 (- 50)"
  have ok: "feq (snd (Modf ?k)) Float_0_5 \<or> feq (snd (Modf ?k)) Float_0_0"
    by (simp add: Float_0_0_def)
  show "KM_From fresh_Node ''KM'' [''6.0''] =
      Returns (fresh_Node\<lparr>GameInfo := Some (zero_GameInfo\<lparr>Komi := Some ?k\<rparr>)\<rparr>, None)"
    using KM_From_ok [OF ParseFloat_6_0 ok, of fresh_Node "''KM''" "[]"]
    by (simp add: fresh_Node_def)
  have "KM_To (fresh_Node\<lparr>GameInfo := Some (zero_GameInfo\<lparr>Komi := Some ?k\<rparr>)\<rparr>)
          = Inr (''KM['' @ FormatFloat_f ?k 1 @ '']'')"
    by (rule KM_To_ok [where gi = "zero_GameInfo\<lparr>Komi := Some ?k\<rparr>", OF _ _ ok]) simp_all
  then show "KM_To (fresh_Node\<lparr>GameInfo := Some (zero_GameInfo\<lparr>Komi := Some ?k\<rparr>)\<rparr>)
          = Inr ''KM[6.0]''"
    unfolding FormatFloat_eval by simp
qed

text \<open>
  C4. Decoding \<^verbatim>\<open>KM[6.3]\<close> fails: the fractional part of the parsed float is neither
  0.5 nor 0.0. Decoding \<^verbatim>\<open>KM[6.5]\<close> or \<^verbatim>\<open>KM[6.0]\<close> into a fresh node succeeds, and
  encoding the node yields exactly \<^verbatim>\<open>KM[6.5]\<close> or \<^verbatim>\<open>KM[6.0]\<close>. Whenever the
  encoder of KM renders a komi, the value has an optional minus sign, at least one digit,
  the point, and exactly one digit after it.
\<close>

theorem KM_examples:
  "KM_From n ''KM'' [''6.3''] =
     Returns (n, Some (KM_bad_fraction (Finite False 7093169413108531 (- 50))))
   \<and> (\<exists>n'. KM_From (fresh_Node :: 'p Node) ''KM'' [''6.5''] = Returns (n', None)
             \<and> KM_To n' = Inr ''KM[6.5]'')
   \<and> (\<exists>n'. KM_From (fresh_Node :: 'p Node) ''KM'' [''6.0''] = Returns (n', None)
             \<and> KM_To n' = Inr ''KM[6.0]'')
   \<and> (\<forall>s. KM_To (m :: 'p Node) = Inr s \<and> s \<noteq> [] \<longrightarrow>
         (\<exists>sg ip d. s = ''KM['' @ sg @ ip @ ''.'' @ [d] @ '']''
             \<and> (sg = [] \<or> sg = ''-'') \<and> ip \<noteq> [] \<and> list_all is_digit ip \<and> is_digit d))"
proof (intro conjI allI impI)
  show "KM_From n ''KM'' [''6.3''] =
     Returns (n, Some (KM_bad_fraction (Finite False 7093169413108531 (- 50))))"
    by (rule KM_From_bad_fraction [OF ParseFloat_6_3])
       (simp_all add: Float_0_5_def Float_0_0_def)
next
  show "\<exists>n'. KM_From (fresh_Node :: 'p Node) ''KM'' [''6.5''] = Returns (n', None)
             \<and> KM_To n' = Inr ''KM[6.5]''"
    using KM_6_5_round_trip by blast
next
  show "\<exists>n'. KM_From (fresh_Node :: 'p Node) ''KM'' [''6.0''] = Returns (n', None)
             \<and> KM_To n' = Inr ''KM[6.0]''"
    using KM_6_0_round_trip by blast
next
  fix s
  assume "KM_To m = Inr s \<and> s \<noteq> []"
  then show "\<exists>sg ip d. s = ''KM['' @ sg @ ip @ ''.'' @ [d] @ '']''
             \<and> (sg = [] \<or> sg = ''-'') \<and> ip \<noteq> [] \<and> list_all is_digit ip \<and> is_digit d"
    using KM_To_one_fraction_digit by blast
qed

theorem KM_examples_witness:
  "KM_To ((fresh_Node :: unit Node)\<lparr>GameInfo := Some (zero_GameInfo
            \<lparr>Komi := Some (Finite False 7318349394477056 (- 50))\<rparr>)\<rparr>) = Inr ''KM[6.5]''
   \<and> ''KM[6.5]'' \<noteq> []
   \<and> (\<exists>sg ip d. ''KM[6.5]'' = ''KM['' @ sg @ ip @ ''.'' @ [d] @ '']''
          \<and> (sg = [] \<or> sg = ''-'') \<and> ip \<noteq> [] \<and> list_all is_digit ip \<and> is_digit d)"
proof -
  let ?m = "(fresh_Node :: unit Node)\<lparr>GameInfo := Some (zero_GameInfo
              \<lparr>Komi := Some (Finite False 7318349394477056 (- 50))\<rparr>)\<rparr>"
  have k: "KM_To ?m = Inr ''KM[6.5]''" by (rule KM_6_5_round_trip)
  have ne: "''KM[6.5]'' \<noteq> []" by simp
  from KM_examples [of "fresh_Node :: unit Node" ?m]
  have "\<forall>s. KM_To ?m = Inr s \<and> s \<noteq> [] \<longrightarrow>
         (\<exists>sg ip d. s = ''KM['' @ sg @ ip @ ''.'' @ [d] @ '']''
             \<and> (sg = [] \<or> sg = ''-'') \<and> ip \<noteq> [] \<and> list_all is_digit ip \<and> is_digit d)"
    by blast
  with k ne show ?thesis by blast
qed

subsection \<open>Player to move, and the encoders of the root properties\<close>

text \<open>
  C10. Called with one raw value that is none of \<^verbatim>\<open>B\<close>, \<^verbatim>\<open>b\<close>, \<^verbatim>\<open>W\<close>, \<^verbatim>\<open>w\<close>
  on a node without GameInfo, the decoder of PL returns the error of the invalid value,
  and the node has changed all the same: it now holds a GameInfo of zero values,
  created before the value was looked at.
\<close>

theorem PL_From_invalid_mutates_node:
  assumes "GameInfo n = None"
    and "d \<noteq> ''B''" and "d \<noteq> ''b''" and "d \<noteq> ''W''" and "d \<noteq> ''w''"
  shows "PL_From n prop [d] =
           Returns (n\<lparr>GameInfo := Some zero_GameInfo\<rparr>, Some (PL_invalid_value d))
         \<and> n\<lparr>GameInfo := Some zero_GameInfo\<rparr> \<noteq> n"
proof -
  have "GameInfo (n\<lparr>GameInfo := Some zero_GameInfo\<rparr>) \<noteq> GameInfo n"
    using assms(1) by simp
  then have "n\<lparr>GameInfo := Some zero_GameInfo\<rparr> \<noteq> n" by metis
  then show ?thesis
    using assms by (simp add: PL_From_def index_def ensure_GameInfo_def)
qed

theorem PL_From_invalid_mutates_node_witness:
  "GameInfo (fresh_Node :: unit Node) = None
   \<and> PL_From (fresh_Node :: unit Node) ''PL'' [''x''] =
       Returns (fresh_Node\<lparr>GameInfo := Some zero_GameInfo\<rparr>, Some (PL_invalid_value ''x''))
   \<and> fresh_Node\<lparr>GameInfo := Some zero_GameInfo\<rparr> \<noteq> (fresh_Node :: unit Node)"
  using PL_From_invalid_mutates_node [of "fresh_Node :: unit Node" "''x''" "''PL''"]
  by (simp add: fresh_Node_def)

text \<open>
  C8. On a node without GameInfo, each of the encoders of the three root properties,
  SZ, KM and PL, returns the empty fragment and no error.
\<close>

theorem root_only_To_without_GameInfo:
  assumes "GameInfo n = None"
  shows "SZ_To n = Inr [] \<and> KM_To n = Inr [] \<and> PL_To n = Inr []"
  using assms by (simp add: SZ_To_def KM_To_def PL_To_def)

theorem root_only_To_without_GameInfo_witness:
  "GameInfo (fresh_Node :: unit Node) = None
   \<and> SZ_To (fresh_Node :: unit Node) = Inr []
   \<and> KM_To (fresh_Node :: unit Node) = Inr []
   \<and> PL_To (fresh_Node :: unit Node) = Inr []"
proof -
  have g: "GameInfo (fresh_Node :: unit Node) = None" by (simp add: fresh_Node_def)
  from g root_only_To_without_GameInfo [OF g] show ?thesis by blast
qed

end
